theory Spec2Isabelle
  imports Complex_Main
begin

section \<open>Data model\<close>

text \<open>
  The development embeds \<^verbatim>\<open>data_utils/dollar_bars.py\<close> and
  \<^verbatim>\<open>data_utils/validation.py\<close>. A tick table is the list of its rows; the three
  columns the code reads are the fields of a row. Python floats are idealised as reals
  (every concrete input below uses values that double precision represents exactly), a
  timestamp is an integer count of time units, and Python's unbounded \<^verbatim>\<open>int\<close> is
  \<^typ>\<open>int\<close>.
\<close>

datatype error = IndexError

record tick =
  price :: real
  volume :: real
  timestamp :: int

text \<open>The row dictionary appended to \<^verbatim>\<open>bars\<close> (lines 88--96), one field per key.\<close>

record bar =
  bar_timestamp :: int
  bar_open :: real
  bar_high :: real
  bar_low :: real
  bar_close :: real
  bar_volume :: real
  bar_dollar_volume :: real

text \<open>The attributes of a \<^verbatim>\<open>DollarBars\<close> instance.\<close>

record DollarBars =
  threshold :: real
  min_ticks :: int

text \<open>
  The column type classes the source names, written there \<^verbatim>\<open>pl.Datetime\<close>,
  \<^verbatim>\<open>pl.Float64\<close> and so on.
\<close>

datatype dtype_class = Datetime | Float64 | Int64 | Float32 | Int32

text \<open>
  A column type as the dataframe library holds it: either a class itself, which is what
  a caller writes in a dictionary such as \<^verbatim>\<open>{'timestamp': pl.Datetime}\<close>, or an
  instance of a class, which is what the schema of a table holds. An instance of
  \<^verbatim>\<open>Datetime\<close> carries a time unit and an optional time zone.
\<close>

datatype time_unit = ns | us | ms

datatype dtype =
    Class dtype_class
  | Datetime_instance time_unit "string option"
  | Float64_instance
  | Int64_instance
  | Float32_instance
  | Int32_instance

text \<open>
  The two constructor calls that end \<^verbatim>\<open>create\<close>: \<^verbatim>\<open>pl.DataFrame(bars)\<close> on a
  list of row dictionaries, and \<^verbatim>\<open>pl.DataFrame({name: dtype, ...})\<close> on a dictionary
  from column names to type classes. What the dataframe library builds from either argument is
  not part of the repository; the model records the call and its argument.
\<close>

datatype frame =
  DataFrame_rows "bar list"
| DataFrame_dict "(string \<times> dtype_class) list"

section \<open>Library operations the code calls\<close>

text \<open>\<^verbatim>\<open>np.cumsum\<close>: the running sums of a sequence.\<close>

fun cumsum_from :: "real \<Rightarrow> real list \<Rightarrow> real list" where
  "cumsum_from acc [] = []"
| "cumsum_from acc (x # xs) = (acc + x) # cumsum_from (acc + x) xs"

definition cumsum :: "real list \<Rightarrow> real list" where
  "cumsum xs = cumsum_from 0 xs"

text \<open>Indexing with a non-negative index; out of range raises.\<close>

definition getitem :: "'a list \<Rightarrow> nat \<Rightarrow> error + 'a" where
  "getitem xs i = (if i < length xs then Inr (xs ! i) else Inl IndexError)"

text \<open>The slice \<^verbatim>\<open>xs[a:b]\<close> for non-negative bounds; slicing never raises.\<close>

definition slice :: "'a list \<Rightarrow> nat \<Rightarrow> nat \<Rightarrow> 'a list" where
  "slice xs a b = take (b - a) (drop a xs)"

section \<open>DollarBars\<close>

text \<open>\<^verbatim>\<open>__init__\<close> (lines 22--35): the two arguments are stored as they are.\<close>

definition DollarBars_init :: "real \<Rightarrow> int \<Rightarrow> error + DollarBars" where
  "DollarBars_init threshold' min_ticks' =
     Inr \<lparr>threshold = threshold', min_ticks = min_ticks'\<rparr>"

text \<open>
  Lines 78--96: the bar built from \<^verbatim>\<open>bar_data\<close> and \<^verbatim>\<open>current_cum_dv\<close>. Element
  \<^verbatim>\<open>[0]\<close> of an empty column raises before anything else is read.
\<close>

definition make_bar :: "tick list \<Rightarrow> real \<Rightarrow> error + bar" where
  "make_bar bar_data current_cum_dv =
     (case bar_data of
        [] \<Rightarrow> Inl IndexError
      | t # ts \<Rightarrow>
          Inr \<lparr>bar_timestamp = timestamp t,
               bar_open = price t,
               bar_high = fold max (map price ts) (price t),
               bar_low = fold min (map price ts) (price t),
               bar_close = price (last bar_data),
               bar_volume = sum_list (map volume bar_data),
               bar_dollar_volume = current_cum_dv\<rparr>)"

text \<open>
  One iteration of the loop of lines 72--98 on the state
  \<^verbatim>\<open>(current_bar_start, bars)\<close>.
\<close>

fun step :: "DollarBars \<Rightarrow> tick list \<Rightarrow> real list \<Rightarrow> nat \<Rightarrow> nat \<times> bar list
    \<Rightarrow> error + (nat \<times> bar list)" where
  "step self data cum_dollar_volume i (current_bar_start, bars) =
     (case getitem cum_dollar_volume i of
        Inl e \<Rightarrow> Inl e
      | Inr ci \<Rightarrow>
          (case getitem cum_dollar_volume current_bar_start of
             Inl e \<Rightarrow> Inl e
           | Inr cs \<Rightarrow>
               (let current_cum_dv = ci - cs in
                if current_cum_dv \<ge> threshold self
                   \<and> int i - int current_bar_start \<ge> min_ticks self
                then (case make_bar (slice data current_bar_start (i + 1)) current_cum_dv of
                        Inl e \<Rightarrow> Inl e
                      | Inr b \<Rightarrow> Inr (i + 1, bars @ [b]))
                else Inr (current_bar_start, bars))))"

text \<open>The \<^verbatim>\<open>for\<close> loop over a list of indices; an exception ends it.\<close>

fun loop :: "DollarBars \<Rightarrow> tick list \<Rightarrow> real list \<Rightarrow> nat list \<Rightarrow> nat \<times> bar list
    \<Rightarrow> error + (nat \<times> bar list)" where
  "loop self data cum_dollar_volume [] st = Inr st"
| "loop self data cum_dollar_volume (i # is) st =
     (case step self data cum_dollar_volume i st of
        Inl e \<Rightarrow> Inl e
      | Inr st' \<Rightarrow> loop self data cum_dollar_volume is st')"

text \<open>Lines 56--98 of \<^verbatim>\<open>create\<close>: the list \<^verbatim>\<open>bars\<close> when the loop has ended.\<close>

definition create_bars :: "DollarBars \<Rightarrow> tick list \<Rightarrow> error + bar list" where
  "create_bars self data =
     (let prices = map price data;
          volumes = map volume data;
          dollar_volumes = map2 (*) prices volumes;
          cum_dollar_volume = cumsum dollar_volumes
      in case loop self data cum_dollar_volume [0..<length data] (0, []) of
           Inl e \<Rightarrow> Inl e
         | Inr (current_bar_start, bars) \<Rightarrow> Inr bars)"

text \<open>The dictionary of lines 105--113.\<close>

definition empty_schema :: "(string \<times> dtype_class) list" where
  "empty_schema =
     [(''timestamp'', Datetime), (''open'', Float64), (''high'', Float64),
      (''low'', Float64), (''close'', Float64), (''volume'', Float64),
      (''dollar_volume'', Float64)]"

text \<open>The keys of the row dictionary of lines 88--96, in the order they are written.\<close>

definition bar_keys :: "string list" where
  "bar_keys =
     [''timestamp'', ''open'', ''high'', ''low'', ''close'', ''volume'', ''dollar_volume'']"

text \<open>\<^verbatim>\<open>create\<close> (lines 37--113).\<close>

definition create :: "DollarBars \<Rightarrow> tick list \<Rightarrow> error + frame" where
  "create self data =
     (case create_bars self data of
        Inl e \<Rightarrow> Inl e
      | Inr bars \<Rightarrow>
          if bars \<noteq> [] then Inr (DataFrame_rows bars)
          else Inr (DataFrame_dict empty_schema))"

text \<open>
  \<^verbatim>\<open>create_lazy\<close> (lines 115--146): every input row, with the two columns
  \<^verbatim>\<open>dollar_volume\<close> and \<^verbatim>\<open>cum_dollar_volume\<close> added. Nothing else is done to the
  frame, and neither attribute of the instance is read.
\<close>

record lazy_row =
  row :: tick
  dollar_volume :: real
  cum_dollar_volume :: real

definition create_lazy :: "DollarBars \<Rightarrow> tick list \<Rightarrow> lazy_row list" where
  "create_lazy self data =
     (let dollar_volumes = map (\<lambda>t. price t * volume t) data;
          cum = cumsum dollar_volumes
      in map (\<lambda>(t, d, c). \<lparr>row = t, dollar_volume = d, cum_dollar_volume = c\<rparr>)
           (zip data (zip dollar_volumes cum)))"

section \<open>The runs of ticks the bars are built from\<close>

text \<open>
  The condition of line 76, and the pairs \<^verbatim>\<open>(current_bar_start, i)\<close> at which it
  holds while the loop runs: each pair delimits the slice \<^verbatim>\<open>bar_data\<close> of line 78.
\<close>

definition closes :: "DollarBars \<Rightarrow> real list \<Rightarrow> nat \<Rightarrow> nat \<Rightarrow> bool" where
  "closes self cum s i \<longleftrightarrow>
     cum ! i - cum ! s \<ge> threshold self \<and> int i - int s \<ge> min_ticks self"

fun span_loop :: "DollarBars \<Rightarrow> real list \<Rightarrow> nat list \<Rightarrow> nat \<Rightarrow> (nat \<times> nat) list \<times> nat" where
  "span_loop self cum [] s = ([], s)"
| "span_loop self cum (i # is) s =
     (if closes self cum s i
      then (case span_loop self cum is (i + 1) of (sp, s') \<Rightarrow> ((s, i) # sp, s'))
      else span_loop self cum is s)"

definition dollar_cum :: "tick list \<Rightarrow> real list" where
  "dollar_cum data = cumsum (map2 (*) (map price data) (map volume data))"

definition bar_spans :: "DollarBars \<Rightarrow> tick list \<Rightarrow> (nat \<times> nat) list" where
  "bar_spans self data = fst (span_loop self (dollar_cum data) [0..<length data] 0)"

definition final_start :: "DollarBars \<Rightarrow> tick list \<Rightarrow> nat" where
  "final_start self data = snd (span_loop self (dollar_cum data) [0..<length data] 0)"

definition bar_ticks :: "tick list \<Rightarrow> nat \<times> nat \<Rightarrow> tick list" where
  "bar_ticks data sp = slice data (fst sp) (snd sp + 1)"

definition bar_runs :: "DollarBars \<Rightarrow> tick list \<Rightarrow> tick list list" where
  "bar_runs self data = map (bar_ticks data) (bar_spans self data)"

definition trailing :: "DollarBars \<Rightarrow> tick list \<Rightarrow> tick list" where
  "trailing self data = drop (final_start self data) data"

text \<open>
  A bar is built from a pair when it is what lines 78--96 make of the pair's slice and of
  the difference of cumulative sums that line 73 computes at the pair.
\<close>

definition built_from :: "tick list \<Rightarrow> real list \<Rightarrow> bar \<Rightarrow> nat \<times> nat \<Rightarrow> bool" where
  "built_from data cum b sp \<longleftrightarrow>
     make_bar (bar_ticks data sp) (cum ! snd sp - cum ! fst sp) = Inr b"

section \<open>Schema validation\<close>

text \<open>
  Comparison of two column types as the dataframe library defines it, which is what
  \<^verbatim>\<open>!=\<close> means at line 35. A class equals itself and every instance of itself,
  whatever the instance's parameters; two instances are equal when they are of the same
  class with the same parameters. The relation is symmetric but not transitive.
\<close>

fun class_of :: "dtype \<Rightarrow> dtype_class" where
  "class_of (Class c) = c"
| "class_of (Datetime_instance u z) = Datetime"
| "class_of Float64_instance = Float64"
| "class_of Int64_instance = Int64"
| "class_of Float32_instance = Float32"
| "class_of Int32_instance = Int32"

fun is_class :: "dtype \<Rightarrow> bool" where
  "is_class (Class c) = True"
| "is_class _ = False"

definition dtype_eq :: "dtype \<Rightarrow> dtype \<Rightarrow> bool" where
  "dtype_eq a b =
     (if is_class a \<or> is_class b then class_of a = class_of b else a = b)"

definition dtype_ne :: "dtype \<Rightarrow> dtype \<Rightarrow> bool" where
  "dtype_ne a b = (\<not> dtype_eq a b)"

text \<open>
  The text an f-string prints for a column type: the class name, followed for an instance
  of \<^verbatim>\<open>Datetime\<close> by its parameters, the strings among them in single quotes.
\<close>

fun class_name :: "dtype_class \<Rightarrow> string" where
  "class_name Datetime = ''Datetime''"
| "class_name Float64 = ''Float64''"
| "class_name Int64 = ''Int64''"
| "class_name Float32 = ''Float32''"
| "class_name Int32 = ''Int32''"

fun time_unit_str :: "time_unit \<Rightarrow> string" where
  "time_unit_str ns = ''ns''"
| "time_unit_str us = ''us''"
| "time_unit_str ms = ''ms''"

definition repr_str :: "string \<Rightarrow> string" where
  "repr_str s = [CHR 0x27] @ s @ [CHR 0x27]"

fun dtype_str :: "dtype \<Rightarrow> string" where
  "dtype_str (Datetime_instance u z) =
     ''Datetime(time_unit='' @ repr_str (time_unit_str u) @ '', time_zone=''
       @ (case z of None \<Rightarrow> ''None'' | Some tz \<Rightarrow> repr_str tz) @ '')''"
| "dtype_str t = class_name (class_of t)"

text \<open>
  \<^verbatim>\<open>validate_schema\<close> (lines 13--38). The table enters through its schema, a map from
  column names to types; \<^verbatim>\<open>expected_schema\<close> is the list of its items in iteration
  order.
\<close>

fun validate_schema :: "(string \<rightharpoonup> dtype) \<Rightarrow> (string \<times> dtype) list \<Rightarrow> bool \<times> string option" where
  "validate_schema actual_schema [] = (True, None)"
| "validate_schema actual_schema ((col, expected_type) # rest) =
     (case actual_schema col of
        None \<Rightarrow> (False, Some (''Missing column: '' @ col))
      | Some actual_type \<Rightarrow>
          if dtype_ne actual_type expected_type
          then (False, Some (''Type mismatch for '' @ col @ '': expected ''
                  @ dtype_str expected_type @ '', got '' @ dtype_str actual_type))
          else validate_schema actual_schema rest)"

section \<open>Scenario A\<close>

text \<open>
  One hundred ticks of price 100.0 and volume 1000, one a minute, and the fifty bars of
  two ticks each that the loop builds from them under \<^verbatim>\<open>threshold=50000\<close> and
  \<^verbatim>\<open>min_ticks=1\<close>.
\<close>

definition scenario_A_ticks :: "tick list" where
  "scenario_A_ticks =
     map (\<lambda>i. \<lparr>price = 100, volume = 1000, timestamp = int i\<rparr>) [0..<100]"

definition scenario_A_result :: "bar list" where
  "scenario_A_result =
     map (\<lambda>k. \<lparr>bar_timestamp = 2 * int k, bar_open = 100, bar_high = 100,
            bar_low = 100, bar_close = 100, bar_volume = 2000,
            bar_dollar_volume = 100000\<rparr>) [0..<50]"

section \<open>The loop and the runs it closes\<close>

text \<open>
  Inside the loop \<^verbatim>\<open>current_bar_start <= i < len(data)\<close> holds, so no index is out
  of range and no slice is empty: the loop never raises, and it appends one bar for each
  pair at which the condition of line 76 holds.
\<close>

lemma length_cumsum_from: "length (cumsum_from a xs) = length xs"
  by (induction xs arbitrary: a) simp_all

lemma length_dollar_cum: "length (dollar_cum data) = length data"
  by (simp add: dollar_cum_def cumsum_def length_cumsum_from)

lemma slice_nonempty: "s \<le> i \<Longrightarrow> i < length data \<Longrightarrow> slice data s (i + 1) \<noteq> []"
  by (simp add: slice_def)

lemma make_bar_total: "bar_data \<noteq> [] \<Longrightarrow> \<exists>b. make_bar bar_data c = Inr b"
  by (cases bar_data) (simp_all add: make_bar_def)


lemma step_closes:
  assumes "s \<le> i" "i < length cum" "i < length data" "closes self cum s i"
  shows "\<exists>b. step self data cum i (s, bars) = Inr (i + 1, bars @ [b]) \<and> built_from data cum b (s, i)"
proof -
  obtain b where b: "make_bar (slice data s (i + 1)) (cum ! i - cum ! s) = Inr b"
    using make_bar_total [OF slice_nonempty [OF assms(1,3)]] by blast
  with assms show ?thesis
    by (simp add: getitem_def closes_def built_from_def bar_ticks_def)
qed

lemma step_stays:
  assumes "s \<le> i" "i < length cum" "\<not> closes self cum s i"
  shows "step self data cum i (s, bars) = Inr (s, bars)"
  using assms by (auto simp add: getitem_def closes_def)

lemma loop_span_loop:
  assumes "n \<le> length cum" "n \<le> length data"
  shows "s \<le> k \<Longrightarrow> k \<le> n \<Longrightarrow>
    \<exists>bs. loop self data cum [k..<n] (s, bars) = Inr (snd (span_loop self cum [k..<n] s), bars @ bs)
       \<and> list_all2 (built_from data cum) bs (fst (span_loop self cum [k..<n] s))"
proof (induction "n - k" arbitrary: k s bars)
  case 0
  then show ?case by simp
next
  case (Suc d)
  then have kn: "k < n" by simp
  then have upt: "[k..<n] = k # [Suc k..<n]" by (rule upt_conv_Cons)
  have d: "d = n - Suc k" using Suc.hyps(2) by simp
  show ?case
  proof (cases "closes self cum s k")
    case True
    obtain b where b: "step self data cum k (s, bars) = Inr (k + 1, bars @ [b])"
        and bf: "built_from data cum b (s, k)"
      using step_closes [of s k cum data self bars] Suc.prems kn assms True by auto
    obtain bs where bs: "loop self data cum [Suc k..<n] (Suc k, bars @ [b])
          = Inr (snd (span_loop self cum [Suc k..<n] (Suc k)), (bars @ [b]) @ bs)"
        and all: "list_all2 (built_from data cum) bs (fst (span_loop self cum [Suc k..<n] (Suc k)))"
      using Suc.hyps(1) [OF d, of "Suc k" "bars @ [b]"] kn by auto
    show ?thesis
      using b bs all bf True
      by (intro exI [of _ "b # bs"]) (simp add: upt case_prod_unfold del: step.simps)
  next
    case False
    have st: "step self data cum k (s, bars) = Inr (s, bars)"
      using step_stays [of s k cum self data bars] Suc.prems kn assms False by auto
    obtain bs where bs: "loop self data cum [Suc k..<n] (s, bars)
          = Inr (snd (span_loop self cum [Suc k..<n] s), bars @ bs)"
        and all: "list_all2 (built_from data cum) bs (fst (span_loop self cum [Suc k..<n] s))"
      using Suc.hyps(1) [OF d, of s bars] Suc.prems kn by auto
    show ?thesis
      using st bs all False
      by (intro exI [of _ bs]) (simp add: upt del: step.simps)
  qed
qed

lemma create_bars_built:
  "\<exists>bars. create_bars self data = Inr bars
      \<and> list_all2 (built_from data (dollar_cum data)) bars (bar_spans self data)"
  using loop_span_loop [of "length data" "dollar_cum data" data 0 0 self "[]"]
  by (auto simp add: create_bars_def bar_spans_def dollar_cum_def [symmetric] length_dollar_cum Let_def)

text \<open>The pairs follow one another without gap or overlap, from index 0 on.\<close>

lemma span_loop_bounds:
  "s \<le> k \<Longrightarrow> k \<le> n \<Longrightarrow>
     s \<le> snd (span_loop self cum [k..<n] s) \<and> snd (span_loop self cum [k..<n] s) \<le> n"
proof (induction "n - k" arbitrary: k s)
  case 0
  then show ?case by simp
next
  case (Suc d)
  then have kn: "k < n" by simp
  have d: "d = n - Suc k" using Suc.hyps(2) by simp
  have A: "Suc k \<le> snd (span_loop self cum [Suc k..<n] (Suc k))
        \<and> snd (span_loop self cum [Suc k..<n] (Suc k)) \<le> n"
    using Suc.hyps(1) [OF d, of "Suc k"] kn by simp
  have B: "s \<le> snd (span_loop self cum [Suc k..<n] s)
        \<and> snd (span_loop self cum [Suc k..<n] s) \<le> n"
    using Suc.hyps(1) [OF d, of s] kn Suc.prems by simp
  show ?case
    using A B Suc.prems by (simp add: upt_conv_Cons [OF kn] case_prod_unfold)
qed

lemma span_loop_spans:
  "s \<le> k \<Longrightarrow> k \<le> n \<Longrightarrow>
     \<forall>sp \<in> set (fst (span_loop self cum [k..<n] s)).
        s \<le> fst sp \<and> fst sp \<le> snd sp \<and> snd sp < n \<and> closes self cum (fst sp) (snd sp)"
proof (induction "n - k" arbitrary: k s)
  case 0
  then show ?case by simp
next
  case (Suc d)
  then have kn: "k < n" by simp
  have d: "d = n - Suc k" using Suc.hyps(2) by simp
  have A: "\<forall>sp \<in> set (fst (span_loop self cum [Suc k..<n] (Suc k))).
        Suc k \<le> fst sp \<and> fst sp \<le> snd sp \<and> snd sp < n \<and> closes self cum (fst sp) (snd sp)"
    using Suc.hyps(1) [OF d, of "Suc k"] kn by simp
  have B: "\<forall>sp \<in> set (fst (span_loop self cum [Suc k..<n] s)).
        s \<le> fst sp \<and> fst sp \<le> snd sp \<and> snd sp < n \<and> closes self cum (fst sp) (snd sp)"
    using Suc.hyps(1) [OF d, of s] kn Suc.prems by simp
  show ?case
  proof (cases "closes self cum s k")
    case True
    with A Suc.prems kn show ?thesis
      by (auto simp add: upt_conv_Cons [OF kn] case_prod_unfold)
  next
    case False
    with B show ?thesis
      by (simp add: upt_conv_Cons [OF kn])
  qed
qed

lemma slice_append:
  "a \<le> b \<Longrightarrow> b \<le> c \<Longrightarrow> slice xs a b @ slice xs b c = slice xs a c"
proof -
  assume ab: "a \<le> b" and bc: "b \<le> c"
  have "take (b - a) (drop a xs) @ take (c - b) (drop (b - a) (drop a xs))
      = take ((b - a) + (c - b)) (drop a xs)"
    by (simp add: take_add)
  with ab bc show ?thesis by (simp add: slice_def)
qed

lemma span_loop_concat:
  "s \<le> k \<Longrightarrow> k \<le> n \<Longrightarrow>
     concat (map (bar_ticks data) (fst (span_loop self cum [k..<n] s)))
       = slice data s (snd (span_loop self cum [k..<n] s))"
proof (induction "n - k" arbitrary: k s)
  case 0
  then show ?case by (simp add: slice_def)
next
  case (Suc d)
  then have kn: "k < n" by simp
  have d: "d = n - Suc k" using Suc.hyps(2) by simp
  show ?case
  proof (cases "closes self cum s k")
    case True
    have A: "concat (map (bar_ticks data) (fst (span_loop self cum [Suc k..<n] (Suc k))))
       = slice data (Suc k) (snd (span_loop self cum [Suc k..<n] (Suc k)))"
      using Suc.hyps(1) [OF d, of "Suc k"] kn by simp
    have bd: "Suc k \<le> snd (span_loop self cum [Suc k..<n] (Suc k))"
      using span_loop_bounds [of "Suc k" "Suc k" n self cum] kn by simp
    have "slice data s (Suc k) @ slice data (Suc k) (snd (span_loop self cum [Suc k..<n] (Suc k)))
        = slice data s (snd (span_loop self cum [Suc k..<n] (Suc k)))"
      using slice_append [of s "Suc k" _ data] Suc.prems bd by simp
    with A True show ?thesis
      by (simp add: upt_conv_Cons [OF kn] case_prod_unfold bar_ticks_def)
  next
    case False
    have B: "concat (map (bar_ticks data) (fst (span_loop self cum [Suc k..<n] s)))
       = slice data s (snd (span_loop self cum [Suc k..<n] s))"
      using Suc.hyps(1) [OF d, of s] kn Suc.prems by simp
    with False show ?thesis
      by (simp add: upt_conv_Cons [OF kn])
  qed
qed

lemma span_loop_trailing:
  "s \<le> k \<Longrightarrow> k \<le> n \<Longrightarrow> (\<forall>i. s \<le> i \<and> i < k \<longrightarrow> \<not> closes self cum s i) \<Longrightarrow>
     (\<forall>i. snd (span_loop self cum [k..<n] s) \<le> i \<and> i < n
         \<longrightarrow> \<not> closes self cum (snd (span_loop self cum [k..<n] s)) i)"
proof (induction "n - k" arbitrary: k s)
  case 0
  then show ?case by simp
next
  case (Suc d)
  then have kn: "k < n" by simp
  have d: "d = n - Suc k" using Suc.hyps(2) by simp
  show ?case
  proof (cases "closes self cum s k")
    case True
    have v: "\<forall>i. Suc k \<le> i \<and> i < Suc k \<longrightarrow> \<not> closes self cum (Suc k) i"
      by auto
    have "\<forall>i. snd (span_loop self cum [Suc k..<n] (Suc k)) \<le> i \<and> i < n
         \<longrightarrow> \<not> closes self cum (snd (span_loop self cum [Suc k..<n] (Suc k))) i"
      using Suc.hyps(1) [OF d _ _ v] kn by simp
    with True show ?thesis
      by (simp add: upt_conv_Cons [OF kn] case_prod_unfold)
  next
    case False
    have pre: "\<forall>i. s \<le> i \<and> i < Suc k \<longrightarrow> \<not> closes self cum s i"
      using Suc.prems(3) False by (auto simp add: less_Suc_eq)
    have "\<forall>i. snd (span_loop self cum [Suc k..<n] s) \<le> i \<and> i < n
         \<longrightarrow> \<not> closes self cum (snd (span_loop self cum [Suc k..<n] s)) i"
      using Suc.hyps(1) [OF d _ _ pre] kn Suc.prems(1) by simp
    with False show ?thesis
      by (simp add: upt_conv_Cons [OF kn])
  qed
qed

lemma runs_partition: "concat (bar_runs self data) @ trailing self data = data"
proof -
  have "concat (bar_runs self data) = slice data 0 (final_start self data)"
    using span_loop_concat [of 0 0 "length data" data self "dollar_cum data"]
    by (simp add: bar_runs_def bar_spans_def final_start_def)
  then show ?thesis
    by (simp add: trailing_def slice_def)
qed

section \<open>What a bar holds\<close>

lemma make_bar_fields:
  assumes "make_bar run c = Inr b"
  shows "run \<noteq> []"
    and "bar_timestamp b = timestamp (hd run)"
    and "bar_open b = price (hd run)"
    and "bar_high b = Max (price ` set run)"
    and "bar_low b = Min (price ` set run)"
    and "bar_close b = price (last run)"
    and "bar_volume b = sum_list (map volume run)"
    and "bar_dollar_volume b = c"
proof -
  from assms obtain t ts where run: "run = t # ts"
    by (cases run) (simp_all add: make_bar_def)
  have mx: "fold max (map price ts) (price t) = Max (price ` set run)"
    using Max.set_eq_fold [of "price t" "map price ts"] by (simp add: run)
  have mn: "fold min (map price ts) (price t) = Min (price ` set run)"
    using Min.set_eq_fold [of "price t" "map price ts"] by (simp add: run)
  from assms run show "run \<noteq> []" by simp
  from assms show "bar_timestamp b = timestamp (hd run)"
    by (auto simp add: make_bar_def run)
  from assms show "bar_open b = price (hd run)"
    by (auto simp add: make_bar_def run)
  from assms mx show "bar_high b = Max (price ` set run)"
    by (auto simp add: make_bar_def run simp del: fold_simps)
  from assms mn show "bar_low b = Min (price ` set run)"
    by (auto simp add: make_bar_def run simp del: fold_simps)
  from assms show "bar_close b = price (last run)"
    by (auto simp add: make_bar_def run)
  from assms show "bar_volume b = sum_list (map volume run)"
    by (auto simp add: make_bar_def run)
  from assms show "bar_dollar_volume b = c"
    by (auto simp add: make_bar_def run)
qed

lemma create_bars_spans:
  "\<exists>bars. create_bars self data = Inr bars
      \<and> list_all2 (\<lambda>b sp. built_from data (dollar_cum data) b sp
            \<and> fst sp \<le> snd sp \<and> snd sp < length data
            \<and> closes self (dollar_cum data) (fst sp) (snd sp))
          bars (bar_spans self data)"
proof -
  obtain bars where cb: "create_bars self data = Inr bars"
      and all: "list_all2 (built_from data (dollar_cum data)) bars (bar_spans self data)"
    using create_bars_built [of self data] by blast
  have sp: "\<forall>sp \<in> set (bar_spans self data).
      0 \<le> fst sp \<and> fst sp \<le> snd sp \<and> snd sp < length data
        \<and> closes self (dollar_cum data) (fst sp) (snd sp)"
    using span_loop_spans [of 0 0 "length data" self "dollar_cum data"]
    by (simp add: bar_spans_def)
  have "list_all2 (\<lambda>b sp. built_from data (dollar_cum data) b sp
            \<and> fst sp \<le> snd sp \<and> snd sp < length data
            \<and> closes self (dollar_cum data) (fst sp) (snd sp))
          bars (bar_spans self data)"
    unfolding list_all2_conv_all_nth
  proof (intro conjI allI impI)
    show "length bars = length (bar_spans self data)"
      using all by (simp add: list_all2_lengthD)
  next
    fix i assume i: "i < length bars"
    then show "built_from data (dollar_cum data) (bars ! i) (bar_spans self data ! i)"
      using all by (simp add: list_all2_nthD)
    have "bar_spans self data ! i \<in> set (bar_spans self data)"
      using i all by (simp add: list_all2_lengthD)
    with sp show "fst (bar_spans self data ! i) \<le> snd (bar_spans self data ! i)"
      and "snd (bar_spans self data ! i) < length data"
      and "closes self (dollar_cum data) (fst (bar_spans self data ! i)) (snd (bar_spans self data ! i))"
      by blast+
  qed
  with cb show ?thesis by blast
qed

lemma length_bar_ticks:
  "fst sp \<le> snd sp \<Longrightarrow> snd sp < length data \<Longrightarrow>
     length (bar_ticks data sp) = snd sp + 1 - fst sp"
  by (simp add: bar_ticks_def slice_def)

section \<open>Properties of the emitted bars\<close>

text \<open>
  Claim C4. For every configuration and every tick sequence, \<^verbatim>\<open>create\<close> raises
  nothing, and every bar it emits, paired with the run of ticks it was built from, has a
  \<^verbatim>\<open>dollar_volume\<close> field that is at least the threshold and a run of at least
  \<^verbatim>\<open>min_ticks\<close> ticks, both at once.
\<close>

theorem create_bars_threshold_min_ticks:
  "\<exists>bars. create_bars self data = Inr bars
     \<and> list_all2 (\<lambda>b run. (\<exists>c. make_bar run c = Inr b)
            \<and> threshold self \<le> bar_dollar_volume b
            \<and> min_ticks self \<le> int (length run))
         bars (bar_runs self data)"
proof -
  obtain bars where cb: "create_bars self data = Inr bars"
      and all: "list_all2 (\<lambda>b sp. built_from data (dollar_cum data) b sp
            \<and> fst sp \<le> snd sp \<and> snd sp < length data
            \<and> closes self (dollar_cum data) (fst sp) (snd sp))
          bars (bar_spans self data)"
    using create_bars_spans [of self data] by blast
  have "list_all2 (\<lambda>b sp. (\<exists>c. make_bar (bar_ticks data sp) c = Inr b)
            \<and> threshold self \<le> bar_dollar_volume b
            \<and> min_ticks self \<le> int (length (bar_ticks data sp)))
         bars (bar_spans self data)"
  proof (rule list_all2_mono [OF all])
    fix b sp
    assume h: "built_from data (dollar_cum data) b sp \<and> fst sp \<le> snd sp
        \<and> snd sp < length data \<and> closes self (dollar_cum data) (fst sp) (snd sp)"
    then have mb: "make_bar (bar_ticks data sp)
        (dollar_cum data ! snd sp - dollar_cum data ! fst sp) = Inr b"
      by (simp add: built_from_def)
    have dv: "bar_dollar_volume b = dollar_cum data ! snd sp - dollar_cum data ! fst sp"
      using make_bar_fields(8) [OF mb] .
    have len: "length (bar_ticks data sp) = snd sp + 1 - fst sp"
      using h length_bar_ticks by blast
    from h have th: "threshold self \<le> dollar_cum data ! snd sp - dollar_cum data ! fst sp"
        and mt: "min_ticks self \<le> int (snd sp) - int (fst sp)"
      by (simp_all add: closes_def)
    have ml: "min_ticks self \<le> int (length (bar_ticks data sp))"
      using mt len h by simp
    have ex: "\<exists>c. make_bar (bar_ticks data sp) c = Inr b"
      using mb by (rule exI)
    from ex dv th ml
    show "(\<exists>c. make_bar (bar_ticks data sp) c = Inr b)
            \<and> threshold self \<le> bar_dollar_volume b
            \<and> min_ticks self \<le> int (length (bar_ticks data sp))"
      by simp
  qed
  then show ?thesis
    using cb by (simp add: bar_runs_def list_all2_map2)
qed

text \<open>
  Claim C5. Every emitted bar is built from a non-empty run of ticks: its high and low are
  the maximum and the minimum of the run's prices, its open and close are the prices of
  the run's first and last tick, its volume is the sum of the run's volumes and its
  timestamp is that of the run's first tick.
\<close>

theorem create_bars_ohlcv:
  "\<exists>bars. create_bars self data = Inr bars
     \<and> list_all2 (\<lambda>b run. run \<noteq> []
            \<and> bar_high b = Max (price ` set run)
            \<and> bar_low b = Min (price ` set run)
            \<and> bar_open b = price (hd run)
            \<and> bar_close b = price (last run)
            \<and> bar_volume b = sum_list (map volume run)
            \<and> bar_timestamp b = timestamp (hd run))
         bars (bar_runs self data)"
proof -
  obtain bars where cb: "create_bars self data = Inr bars"
      and all: "list_all2 (built_from data (dollar_cum data)) bars (bar_spans self data)"
    using create_bars_built [of self data] by blast
  have "list_all2 (\<lambda>b sp. bar_ticks data sp \<noteq> []
            \<and> bar_high b = Max (price ` set (bar_ticks data sp))
            \<and> bar_low b = Min (price ` set (bar_ticks data sp))
            \<and> bar_open b = price (hd (bar_ticks data sp))
            \<and> bar_close b = price (last (bar_ticks data sp))
            \<and> bar_volume b = sum_list (map volume (bar_ticks data sp))
            \<and> bar_timestamp b = timestamp (hd (bar_ticks data sp)))
         bars (bar_spans self data)"
  proof (rule list_all2_mono [OF all])
    fix b sp
    assume "built_from data (dollar_cum data) b sp"
    then have mb: "make_bar (bar_ticks data sp)
        (dollar_cum data ! snd sp - dollar_cum data ! fst sp) = Inr b"
      by (simp add: built_from_def)
    show "bar_ticks data sp \<noteq> []
            \<and> bar_high b = Max (price ` set (bar_ticks data sp))
            \<and> bar_low b = Min (price ` set (bar_ticks data sp))
            \<and> bar_open b = price (hd (bar_ticks data sp))
            \<and> bar_close b = price (last (bar_ticks data sp))
            \<and> bar_volume b = sum_list (map volume (bar_ticks data sp))
            \<and> bar_timestamp b = timestamp (hd (bar_ticks data sp))"
      using make_bar_fields(1-7) [OF mb] by blast
  qed
  then show ?thesis
    using cb by (simp add: bar_runs_def list_all2_map2)
qed

text \<open>
  Claim C2. The runs of the emitted bars, concatenated in order and followed by the
  trailing segment, are exactly the input; the emitted bars are the bars of these runs,
  one each, so the trailing segment gives no bar; and the closing condition holds at no
  tick of the trailing segment.
\<close>

theorem create_partitions_input:
  "concat (bar_runs self data) @ trailing self data = data
   \<and> (\<exists>bars. create_bars self data = Inr bars
        \<and> list_all2 (\<lambda>b run. \<exists>c. make_bar run c = Inr b) bars (bar_runs self data))
   \<and> (\<forall>i. final_start self data \<le> i \<and> i < length data
        \<longrightarrow> \<not> closes self (dollar_cum data) (final_start self data) i)"
proof -
  obtain bars where cb: "create_bars self data = Inr bars"
      and all: "list_all2 (built_from data (dollar_cum data)) bars (bar_spans self data)"
    using create_bars_built [of self data] by blast
  have "list_all2 (\<lambda>b sp. \<exists>c. make_bar (bar_ticks data sp) c = Inr b)
      bars (bar_spans self data)"
  proof (rule list_all2_mono [OF all])
    fix b sp
    assume "built_from data (dollar_cum data) b sp"
    then show "\<exists>c. make_bar (bar_ticks data sp) c = Inr b"
      unfolding built_from_def by (rule exI)
  qed
  then have B: "\<exists>bars. create_bars self data = Inr bars
        \<and> list_all2 (\<lambda>b run. \<exists>c. make_bar run c = Inr b) bars (bar_runs self data)"
    using cb by (simp add: bar_runs_def list_all2_map2)
  have C: "\<forall>i. final_start self data \<le> i \<and> i < length data
        \<longrightarrow> \<not> closes self (dollar_cum data) (final_start self data) i"
    using span_loop_trailing [of 0 0 "length data" self "dollar_cum data"]
    by (simp add: final_start_def)
  from runs_partition [of self data] B C show ?thesis by blast
qed

text \<open>
  Claim C8, as amended. \<^verbatim>\<open>create\<close> checks no tick: on every configuration and
  every tick sequence, whatever the sign of a price or a volume, the loop ends with a list
  of bars and the call returns a frame; no error is raised.
\<close>

theorem create_never_raises:
  "(\<exists>bars. create_bars self data = Inr bars) \<and> (\<exists>df. create self data = Inr df)"
proof -
  obtain bars where cb: "create_bars self data = Inr bars"
    using create_bars_built [of self data] by blast
  then show ?thesis by (simp add: create_def)
qed

section \<open>Instances on concrete ticks\<close>

lemmas eval_defs = create_def create_bars_def cumsum_def getitem_def make_bar_def slice_def
lemmas span_defs = bar_runs_def bar_spans_def final_start_def trailing_def dollar_cum_def
  closes_def bar_ticks_def

text \<open>
  On a table without rows the loop body never runs, \<^verbatim>\<open>bars\<close> stays empty and
  the second constructor call is the one made.
\<close>

lemma create_empty: "create self [] = Inr (DataFrame_dict empty_schema)"
  by (simp add: create_def create_bars_def)

text \<open>
  The dictionary passed on that branch has the keys of a row dictionary, in the same
  order. Which column types the dataframe library gives either frame is outside the
  repository.
\<close>

lemma empty_schema_keys: "map fst empty_schema = bar_keys"
  by (simp add: empty_schema_def bar_keys_def)

text \<open>
  Witness of C2: three equal ticks under \<^verbatim>\<open>threshold=50000\<close> and
  \<^verbatim>\<open>min_ticks=1\<close>. The first two make the only bar, the third is the trailing
  segment, and the closing condition fails at it.
\<close>

theorem create_partitions_input_witness:
  "concat (bar_runs \<lparr>threshold = 50000, min_ticks = 1\<rparr>
      [\<lparr>price = 100, volume = 1000, timestamp = 0\<rparr>,
       \<lparr>price = 100, volume = 1000, timestamp = 1\<rparr>,
       \<lparr>price = 100, volume = 1000, timestamp = 2\<rparr>])
     @ trailing \<lparr>threshold = 50000, min_ticks = 1\<rparr>
      [\<lparr>price = 100, volume = 1000, timestamp = 0\<rparr>,
       \<lparr>price = 100, volume = 1000, timestamp = 1\<rparr>,
       \<lparr>price = 100, volume = 1000, timestamp = 2\<rparr>]
     = [\<lparr>price = 100, volume = 1000, timestamp = 0\<rparr>,
        \<lparr>price = 100, volume = 1000, timestamp = 1\<rparr>,
        \<lparr>price = 100, volume = 1000, timestamp = 2\<rparr>]
   \<and> bar_runs \<lparr>threshold = 50000, min_ticks = 1\<rparr>
      [\<lparr>price = 100, volume = 1000, timestamp = 0\<rparr>,
       \<lparr>price = 100, volume = 1000, timestamp = 1\<rparr>,
       \<lparr>price = 100, volume = 1000, timestamp = 2\<rparr>]
     = [[\<lparr>price = 100, volume = 1000, timestamp = 0\<rparr>,
         \<lparr>price = 100, volume = 1000, timestamp = 1\<rparr>]]
   \<and> trailing \<lparr>threshold = 50000, min_ticks = 1\<rparr>
      [\<lparr>price = 100, volume = 1000, timestamp = 0\<rparr>,
       \<lparr>price = 100, volume = 1000, timestamp = 1\<rparr>,
       \<lparr>price = 100, volume = 1000, timestamp = 2\<rparr>]
     = [\<lparr>price = 100, volume = 1000, timestamp = 2\<rparr>]
   \<and> \<not> closes \<lparr>threshold = 50000, min_ticks = 1\<rparr>
      (dollar_cum [\<lparr>price = 100, volume = 1000, timestamp = 0\<rparr>,
                   \<lparr>price = 100, volume = 1000, timestamp = 1\<rparr>,
                   \<lparr>price = 100, volume = 1000, timestamp = 2\<rparr>])
      (final_start \<lparr>threshold = 50000, min_ticks = 1\<rparr>
         [\<lparr>price = 100, volume = 1000, timestamp = 0\<rparr>,
          \<lparr>price = 100, volume = 1000, timestamp = 1\<rparr>,
          \<lparr>price = 100, volume = 1000, timestamp = 2\<rparr>]) 2"
proof -
  let ?self = "\<lparr>threshold = 50000, min_ticks = 1\<rparr>"
  let ?data = "[\<lparr>price = 100, volume = 1000, timestamp = 0\<rparr>,
       \<lparr>price = 100, volume = 1000, timestamp = 1\<rparr>,
       \<lparr>price = 100, volume = 1000, timestamp = 2\<rparr>]"
  have fs: "final_start ?self ?data = 2"
    by (simp add: span_defs cumsum_def slice_def)
  have hyp: "final_start ?self ?data \<le> 2 \<and> 2 < length ?data"
    using fs by simp
  have runs: "bar_runs ?self ?data = [[\<lparr>price = 100, volume = 1000, timestamp = 0\<rparr>,
         \<lparr>price = 100, volume = 1000, timestamp = 1\<rparr>]]"
    by (simp add: span_defs cumsum_def slice_def)
  have tr: "trailing ?self ?data = [\<lparr>price = 100, volume = 1000, timestamp = 2\<rparr>]"
    by (simp add: span_defs cumsum_def slice_def)
  have part: "concat (bar_runs ?self ?data) @ trailing ?self ?data = ?data"
    using create_partitions_input [of ?self ?data] by blast
  have nc: "\<not> closes ?self (dollar_cum ?data) (final_start ?self ?data) 2"
    using create_partitions_input [of ?self ?data] hyp by blast
  from part runs tr nc show ?thesis by blast
qed

text \<open>
  Witness of C4: a bar of two ticks, whose \<^verbatim>\<open>dollar_volume\<close> field 101000 is
  above the threshold 50000 and whose run is longer than \<^verbatim>\<open>min_ticks = 1\<close>.
\<close>

theorem create_bars_threshold_min_ticks_witness:
  "create_bars \<lparr>threshold = 50000, min_ticks = 1\<rparr>
      [\<lparr>price = 100, volume = 1000, timestamp = 0\<rparr>,
       \<lparr>price = 101, volume = 1000, timestamp = 1\<rparr>,
       \<lparr>price = 99, volume = 1000, timestamp = 2\<rparr>]
     = Inr [\<lparr>bar_timestamp = 0, bar_open = 100, bar_high = 101, bar_low = 100,
            bar_close = 101, bar_volume = 2000, bar_dollar_volume = 101000\<rparr>]
   \<and> list_all2 (\<lambda>b run. (\<exists>c. make_bar run c = Inr b)
            \<and> (50000::real) \<le> bar_dollar_volume b
            \<and> (1::int) \<le> int (length run))
        [\<lparr>bar_timestamp = 0, bar_open = 100, bar_high = 101, bar_low = 100,
            bar_close = 101, bar_volume = 2000, bar_dollar_volume = 101000\<rparr>]
        [[\<lparr>price = 100, volume = 1000, timestamp = 0\<rparr>,
          \<lparr>price = 101, volume = 1000, timestamp = 1\<rparr>]]"
proof -
  let ?self = "\<lparr>threshold = 50000, min_ticks = 1\<rparr>"
  let ?data = "[\<lparr>price = 100, volume = 1000, timestamp = 0\<rparr>,
       \<lparr>price = 101, volume = 1000, timestamp = 1\<rparr>,
       \<lparr>price = 99, volume = 1000, timestamp = 2\<rparr>]"
  have ev: "create_bars ?self ?data
     = Inr [\<lparr>bar_timestamp = 0, bar_open = 100, bar_high = 101, bar_low = 100,
            bar_close = 101, bar_volume = 2000, bar_dollar_volume = 101000\<rparr>]"
    by (simp add: eval_defs)
  have runs: "bar_runs ?self ?data = [[\<lparr>price = 100, volume = 1000, timestamp = 0\<rparr>,
          \<lparr>price = 101, volume = 1000, timestamp = 1\<rparr>]]"
    by (simp add: span_defs cumsum_def slice_def)
  from create_bars_threshold_min_ticks [of ?self ?data] ev runs
  show ?thesis by simp
qed

text \<open>
  Witness of C5: the bar of the run of prices 100 and 101, starting at timestamp 5.
\<close>

theorem create_bars_ohlcv_witness:
  "create_bars \<lparr>threshold = 50000, min_ticks = 1\<rparr>
      [\<lparr>price = 100, volume = 1000, timestamp = 5\<rparr>,
       \<lparr>price = 101, volume = 1000, timestamp = 6\<rparr>,
       \<lparr>price = 99, volume = 1000, timestamp = 7\<rparr>]
     = Inr [\<lparr>bar_timestamp = 5, bar_open = 100, bar_high = 101, bar_low = 100,
            bar_close = 101, bar_volume = 2000, bar_dollar_volume = 101000\<rparr>]
   \<and> list_all2 (\<lambda>b run. run \<noteq> []
            \<and> bar_high b = Max (price ` set run)
            \<and> bar_low b = Min (price ` set run)
            \<and> bar_open b = price (hd run)
            \<and> bar_close b = price (last run)
            \<and> bar_volume b = sum_list (map volume run)
            \<and> bar_timestamp b = timestamp (hd run))
        [\<lparr>bar_timestamp = 5, bar_open = 100, bar_high = 101, bar_low = 100,
            bar_close = 101, bar_volume = 2000, bar_dollar_volume = 101000\<rparr>]
        [[\<lparr>price = 100, volume = 1000, timestamp = 5\<rparr>,
          \<lparr>price = 101, volume = 1000, timestamp = 6\<rparr>]]"
proof -
  let ?self = "\<lparr>threshold = 50000, min_ticks = 1\<rparr>"
  let ?data = "[\<lparr>price = 100, volume = 1000, timestamp = 5\<rparr>,
       \<lparr>price = 101, volume = 1000, timestamp = 6\<rparr>,
       \<lparr>price = 99, volume = 1000, timestamp = 7\<rparr>]"
  have ev: "create_bars ?self ?data
     = Inr [\<lparr>bar_timestamp = 5, bar_open = 100, bar_high = 101, bar_low = 100,
            bar_close = 101, bar_volume = 2000, bar_dollar_volume = 101000\<rparr>]"
    by (simp add: eval_defs)
  have runs: "bar_runs ?self ?data = [[\<lparr>price = 100, volume = 1000, timestamp = 5\<rparr>,
          \<lparr>price = 101, volume = 1000, timestamp = 6\<rparr>]]"
    by (simp add: span_defs cumsum_def slice_def)
  from create_bars_ohlcv [of ?self ?data] ev runs
  show ?thesis by simp
qed

text \<open>
  Claim C1, evaluated where it fails. Under \<^verbatim>\<open>threshold=50000\<close> and
  \<^verbatim>\<open>min_ticks=1\<close> a single tick worth 100000 closes no bar; with a second such
  tick one bar closes, its run holds both ticks, the sum of price times volume over the
  run is 200000 and the bar's \<^verbatim>\<open>dollar_volume\<close> is 100000: line 73 subtracts
  the cumulative sum at \<^verbatim>\<open>current_bar_start\<close>, which already contains the bar's
  first tick, and line 76 compares \<^verbatim>\<open>i - current_bar_start\<close>, one less than the
  number of ticks, with \<^verbatim>\<open>min_ticks\<close>.
\<close>

theorem create_excludes_first_tick:
  "create_bars \<lparr>threshold = 50000, min_ticks = 1\<rparr>
      [\<lparr>price = 100, volume = 1000, timestamp = 0\<rparr>] = Inr []
   \<and> create_bars \<lparr>threshold = 50000, min_ticks = 1\<rparr>
      [\<lparr>price = 100, volume = 1000, timestamp = 0\<rparr>,
       \<lparr>price = 100, volume = 1000, timestamp = 1\<rparr>]
     = Inr [\<lparr>bar_timestamp = 0, bar_open = 100, bar_high = 100, bar_low = 100,
            bar_close = 100, bar_volume = 2000, bar_dollar_volume = 100000\<rparr>]
   \<and> bar_runs \<lparr>threshold = 50000, min_ticks = 1\<rparr>
      [\<lparr>price = 100, volume = 1000, timestamp = 0\<rparr>,
       \<lparr>price = 100, volume = 1000, timestamp = 1\<rparr>]
     = [[\<lparr>price = 100, volume = 1000, timestamp = 0\<rparr>,
         \<lparr>price = 100, volume = 1000, timestamp = 1\<rparr>]]
   \<and> sum_list (map2 (*)
        (map price [\<lparr>price = 100, volume = 1000, timestamp = 0\<rparr>,
                    \<lparr>price = 100, volume = 1000, timestamp = 1\<rparr>])
        (map volume [\<lparr>price = 100, volume = 1000, timestamp = 0\<rparr>,
                     \<lparr>price = 100, volume = 1000, timestamp = 1\<rparr>])) = 200000"
  by (simp add: eval_defs span_defs)

text \<open>
  Claim C3, evaluated on its input. Scenario A gives fifty bars, not one hundred, each
  built from two ticks, with volume 2000 and \<^verbatim>\<open>dollar_volume\<close> 100000.
\<close>

theorem scenario_A_gives_fifty_bars:
  "create_bars \<lparr>threshold = 50000, min_ticks = 1\<rparr> scenario_A_ticks = Inr scenario_A_result
   \<and> length scenario_A_ticks = 100 \<and> length scenario_A_result = 50"
  by (simp add: scenario_A_ticks_def scenario_A_result_def create_bars_def cumsum_def
      getitem_def make_bar_def slice_def upt_rec [of _ "numeral _"])

text \<open>
  Claim C7, evaluated where it fails. On two ticks \<^verbatim>\<open>create_lazy\<close> returns the
  two input rows with their dollar volume and its running sum, where \<^verbatim>\<open>create\<close>
  returns one bar.
\<close>

theorem create_lazy_returns_tick_rows:
  "create_lazy \<lparr>threshold = 50000, min_ticks = 1\<rparr>
      [\<lparr>price = 100, volume = 1000, timestamp = 0\<rparr>,
       \<lparr>price = 100, volume = 1000, timestamp = 1\<rparr>]
     = [\<lparr>row = \<lparr>price = 100, volume = 1000, timestamp = 0\<rparr>,
          dollar_volume = 100000, cum_dollar_volume = 100000\<rparr>,
        \<lparr>row = \<lparr>price = 100, volume = 1000, timestamp = 1\<rparr>,
          dollar_volume = 100000, cum_dollar_volume = 200000\<rparr>]
   \<and> create \<lparr>threshold = 50000, min_ticks = 1\<rparr>
      [\<lparr>price = 100, volume = 1000, timestamp = 0\<rparr>,
       \<lparr>price = 100, volume = 1000, timestamp = 1\<rparr>]
     = Inr (DataFrame_rows
         [\<lparr>bar_timestamp = 0, bar_open = 100, bar_high = 100, bar_low = 100,
           bar_close = 100, bar_volume = 2000, bar_dollar_volume = 100000\<rparr>])"
  by (simp add: eval_defs create_lazy_def)

text \<open>
  Counterexample to C8 as stated. A first tick of price -5 and volume -2 raises nothing:
  it is folded into the bar, whose open and low are -5 and whose volume is 8.
\<close>

theorem create_accepts_malformed_ticks:
  "create \<lparr>threshold = 50, min_ticks = 1\<rparr>
      [\<lparr>price = - 5, volume = - 2, timestamp = 0\<rparr>,
       \<lparr>price = 10, volume = 10, timestamp = 1\<rparr>]
     = Inr (DataFrame_rows
         [\<lparr>bar_timestamp = 0, bar_open = - 5, bar_high = 10, bar_low = - 5,
           bar_close = 10, bar_volume = 8, bar_dollar_volume = 100\<rparr>])"
  by (simp add: eval_defs)

section \<open>Construction\<close>

text \<open>
  Counterexample to C9 as stated: \<^verbatim>\<open>min_ticks = 0\<close> is accepted and stored.
\<close>

theorem DollarBars_init_accepts_zero_min_ticks:
  "DollarBars_init 100000 0 = Inr \<lparr>threshold = 100000, min_ticks = 0\<rparr>"
  by (simp add: DollarBars_init_def)

text \<open>
  Claim C9, as amended. The constructor validates nothing: for every threshold and every
  \<^verbatim>\<open>min_ticks\<close>, also below 1, it raises no error and stores both values as
  given; nothing is clamped, and a threshold at or below zero is a configuration like any
  other.
\<close>

theorem DollarBars_init_stores:
  "DollarBars_init th mt = Inr \<lparr>threshold = th, min_ticks = mt\<rparr>"
  by (simp add: DollarBars_init_def)

section \<open>Properties of schema validation\<close>

lemma validate_schema_True_iff:
  "validate_schema actual expected = (True, None)
     \<longleftrightarrow> (\<forall>(c, t) \<in> set expected. \<exists>a. actual c = Some a \<and> \<not> dtype_ne a t)"
  by (induction expected) (auto split: option.splits if_splits)

lemma validate_schema_cong:
  "(\<forall>c \<in> fst ` set expected. actual' c = actual c)
     \<Longrightarrow> validate_schema actual' expected = validate_schema actual expected"
  by (induction expected) (auto split: option.splits)

lemma validate_schema_first:
  "(\<forall>(c', t') \<in> set pre. \<exists>a. actual c' = Some a \<and> \<not> dtype_ne a t') \<Longrightarrow>
   \<not> (\<exists>a. actual c = Some a \<and> \<not> dtype_ne a t) \<Longrightarrow>
    validate_schema actual (pre @ (c, t) # post) =
      (False, Some (case actual c of
          None \<Rightarrow> ''Missing column: '' @ c
        | Some a \<Rightarrow> ''Type mismatch for '' @ c @ '': expected '' @ dtype_str t
              @ '', got '' @ dtype_str a))"
  by (induction pre) (auto split: option.splits)

text \<open>
  Counterexample to C10 as stated. With the class \<^verbatim>\<open>pl.Datetime\<close> expected, a
  table whose timestamp column is in microseconds without time zone and a table whose
  timestamp column is in milliseconds in UTC are both accepted. The two column types
  differ, so they are not both exactly the expected type, and neither is the class.
\<close>

theorem validate_schema_class_matches_instances:
  "validate_schema [''timestamp'' \<mapsto> Datetime_instance us None]
      [(''timestamp'', Class Datetime)] = (True, None)
   \<and> validate_schema [''timestamp'' \<mapsto> Datetime_instance ms (Some ''UTC'')]
      [(''timestamp'', Class Datetime)] = (True, None)
   \<and> Datetime_instance us None \<noteq> Datetime_instance ms (Some ''UTC'')
   \<and> Datetime_instance us None \<noteq> Class Datetime"
  by (simp add: dtype_ne_def dtype_eq_def)

text \<open>
  Claim C10, as amended. \<^verbatim>\<open>validate_schema\<close> returns \<^verbatim>\<open>(True, None)\<close> exactly
  when every expected column is in the table with a type that the comparison of line 35
  does not tell from the expected one; a table that agrees with another on the expected
  columns gets the same result, whatever other columns it has; and when the expected
  columns before a column are all accepted and that column is not, the result is
  \<^verbatim>\<open>False\<close> with the message for that column: missing if the table lacks it, type
  mismatch otherwise.
\<close>

theorem validate_schema_correct:
  "(validate_schema actual expected = (True, None)
      \<longleftrightarrow> (\<forall>(c, t) \<in> set expected. \<exists>a. actual c = Some a \<and> \<not> dtype_ne a t))
   \<and> ((\<forall>c \<in> fst ` set expected. actual' c = actual c)
      \<longrightarrow> validate_schema actual' expected = validate_schema actual expected)
   \<and> (expected = pre @ (c, t) # post
        \<and> (\<forall>(c', t') \<in> set pre. \<exists>a. actual c' = Some a \<and> \<not> dtype_ne a t')
        \<and> \<not> (\<exists>a. actual c = Some a \<and> \<not> dtype_ne a t)
      \<longrightarrow> validate_schema actual expected =
          (False, Some (case actual c of
              None \<Rightarrow> ''Missing column: '' @ c
            | Some a \<Rightarrow> ''Type mismatch for '' @ c @ '': expected '' @ dtype_str t
                  @ '', got '' @ dtype_str a)))"
  using validate_schema_True_iff [of actual expected]
    validate_schema_cong [of expected actual' actual]
    validate_schema_first [of pre actual c t post]
  by blast

text \<open>
  Witness of C10: a class accepts an instance of itself, an extra column is ignored, a
  missing column or a mismatched one is reported before a later offending column, and
  two instances of \<^verbatim>\<open>Datetime\<close> with different time units are a mismatch whose
  message prints both with their parameters.
\<close>

theorem validate_schema_correct_witness:
  "validate_schema
      [''price'' \<mapsto> Float64_instance, ''volume'' \<mapsto> Int64_instance,
       ''timestamp'' \<mapsto> Datetime_instance us None]
      [(''price'', Class Float64), (''timestamp'', Class Datetime)] = (True, None)
   \<and> validate_schema [''price'' \<mapsto> Float64_instance, ''timestamp'' \<mapsto> Datetime_instance us None]
      [(''price'', Class Float64), (''timestamp'', Class Datetime)]
     = validate_schema
      [''price'' \<mapsto> Float64_instance, ''volume'' \<mapsto> Int64_instance,
       ''timestamp'' \<mapsto> Datetime_instance us None]
      [(''price'', Class Float64), (''timestamp'', Class Datetime)]
   \<and> validate_schema
      [''price'' \<mapsto> Float64_instance, ''volume'' \<mapsto> Int64_instance,
       ''timestamp'' \<mapsto> Datetime_instance us None]
      [(''price'', Class Float64), (''open'', Class Float64), (''volume'', Class Float64)]
     = (False, Some ''Missing column: open'')
   \<and> validate_schema
      [''price'' \<mapsto> Float64_instance, ''volume'' \<mapsto> Int64_instance,
       ''timestamp'' \<mapsto> Datetime_instance us None]
      [(''price'', Class Float64), (''volume'', Class Float64), (''open'', Class Float64)]
     = (False, Some ''Type mismatch for volume: expected Float64, got Int64'')
   \<and> validate_schema
      [''price'' \<mapsto> Float64_instance, ''volume'' \<mapsto> Int64_instance,
       ''timestamp'' \<mapsto> Datetime_instance us None]
      [(''price'', Class Float64), (''timestamp'', Datetime_instance ms None)]
     = (False, Some ''Type mismatch for timestamp: expected Datetime(time_unit='ms', time_zone=None), got Datetime(time_unit='us', time_zone=None)'')"
proof -
  let ?A = "[''price'' \<mapsto> Float64_instance, ''volume'' \<mapsto> Int64_instance,
       ''timestamp'' \<mapsto> Datetime_instance us None]"
  let ?A' = "[''price'' \<mapsto> Float64_instance, ''timestamp'' \<mapsto> Datetime_instance us None]"
  let ?E = "[(''price'', Class Float64), (''timestamp'', Class Datetime)]"
  have all: "\<forall>(c, t) \<in> set ?E. \<exists>a. ?A c = Some a \<and> \<not> dtype_ne a t"
    by (simp add: dtype_ne_def dtype_eq_def)
  have same: "\<forall>c \<in> fst ` set ?E. ?A' c = ?A c" by simp
  have pre: "\<forall>(c', t') \<in> set [(''price'', Class Float64)].
      \<exists>a. ?A c' = Some a \<and> \<not> dtype_ne a t'"
    by (simp add: dtype_ne_def dtype_eq_def)
  have miss: "\<not> (\<exists>a. ?A ''open'' = Some a \<and> \<not> dtype_ne a (Class Float64))" by simp
  have mism: "\<not> (\<exists>a. ?A ''volume'' = Some a \<and> \<not> dtype_ne a (Class Float64))"
    by (simp add: dtype_ne_def dtype_eq_def)
  have unit: "\<not> (\<exists>a. ?A ''timestamp'' = Some a \<and> \<not> dtype_ne a (Datetime_instance ms None))"
    by (simp add: dtype_ne_def dtype_eq_def)
  have 1: "validate_schema ?A ?E = (True, None)"
    using validate_schema_correct [of ?A ?E ?A' "[]" "''price''" "Class Float64"
        "[(''timestamp'', Class Datetime)]"] all
    by blast
  have 2: "validate_schema ?A' ?E = validate_schema ?A ?E"
    using validate_schema_correct [of ?A ?E ?A' "[]" "''price''" "Class Float64"
        "[(''timestamp'', Class Datetime)]"] same
    by blast
  have 3: "validate_schema ?A
        [(''price'', Class Float64), (''open'', Class Float64), (''volume'', Class Float64)]
      = (False, Some ''Missing column: open'')"
    using validate_schema_correct [of ?A
        "[(''price'', Class Float64), (''open'', Class Float64), (''volume'', Class Float64)]" ?A
        "[(''price'', Class Float64)]" "''open''" "Class Float64"
        "[(''volume'', Class Float64)]"] pre miss
    by simp
  have 4: "validate_schema ?A
        [(''price'', Class Float64), (''volume'', Class Float64), (''open'', Class Float64)]
      = (False, Some ''Type mismatch for volume: expected Float64, got Int64'')"
    using validate_schema_correct [of ?A
        "[(''price'', Class Float64), (''volume'', Class Float64), (''open'', Class Float64)]" ?A
        "[(''price'', Class Float64)]" "''volume''" "Class Float64"
        "[(''open'', Class Float64)]"] pre mism
    by simp
  have 5: "validate_schema ?A
        [(''price'', Class Float64), (''timestamp'', Datetime_instance ms None)]
      = (False, Some ''Type mismatch for timestamp: expected Datetime(time_unit='ms', time_zone=None), got Datetime(time_unit='us', time_zone=None)'')"
    using validate_schema_correct [of ?A
        "[(''price'', Class Float64), (''timestamp'', Datetime_instance ms None)]" ?A
        "[(''price'', Class Float64)]" "''timestamp''" "Datetime_instance ms None" "[]"] pre unit
    by (simp add: repr_str_def)
  from 1 2 3 4 5 show ?thesis by blast
qed

end
